theory Spec2Isabelle
  imports Complex_Main "HOL-Library.Word" "HOL-Library.Sublist" "HOL-Library.Multiset"
begin

section \<open>JavaScript strings\<close>

text \<open>
  A JavaScript string is a sequence of UTF-16 code units, so \<open>slice\<close>, \<open>trim\<close> and
  \<open>replace\<close> work on 16-bit units.  \<open>ascii\<close> embeds an ASCII literal of the source.
\<close>

type_synonym jsstring = "16 word list"

definition ascii :: "string \<Rightarrow> jsstring" where
  "ascii s = map (\<lambda>c. of_nat (of_char c)) s"

text \<open>Template literals print a non-negative integer in decimal.\<close>

function showNat :: "nat \<Rightarrow> jsstring" where
  "showNat n = (if n < 10 then [of_nat (48 + n)] else showNat (n div 10) @ [of_nat (48 + n mod 10)])"
  by pat_completeness auto
termination
  by (relation "measure (\<lambda>n. n)") auto

declare showNat.simps [simp del]

section \<open>The network and what a call leaves behind\<close>

text \<open>
  Values of \<open>JSON.parse\<close>.  An object is the association list of its own properties
  (\<open>map_of\<close> reads a property); numbers are IEEE doubles, whose finite values are
  embedded in the reals.
\<close>

datatype jsnum = NaN | NegInf | Fin real | PosInf

datatype jsval =
    Undefined
  | Null
  | Bool bool
  | Num jsnum
  | Str jsstring
  | Arr "jsval list"
  | Obj "(jsstring \<times> jsval) list"

text \<open>
  Thrown values: \<open>Error m\<close> is \<open>new Error(m)\<close> of the source, \<open>Thrown d\<close> is a value the
  platform throws or rejects with (a \<open>TypeError\<close> of \<open>fetch\<close>, a \<open>SyntaxError\<close> of
  \<open>JSON.parse\<close>).  Both are objects, hence truthy.
\<close>

datatype js_error = Error jsstring | Thrown jsstring

text \<open>
  A \<open>Response\<close>: \<open>body\<close> is what \<open>res.text()\<close> settles with, and \<open>res.ok\<close> is
  the Fetch standard's test of the status for the range 200 to 299.
\<close>

record response =
  status :: nat
  statusText :: jsstring
  body :: "js_error + jsstring"

definition ok :: "response \<Rightarrow> bool" where
  "ok res = (200 \<le> status res \<and> status res \<le> 299)"

datatype outcome = Rejects js_error | Resolves response

text \<open>
  The effects of the program are network requests and pauses.  A run leaves the list of
  its events, in order; the network answers a request as a function of the events before
  it, of the URL and of the request options.
\<close>

datatype event = Fetch jsstring | Wait nat

type_synonym network = "event list \<Rightarrow> jsstring \<Rightarrow> jsval \<Rightarrow> outcome"

fun requests :: "event list \<Rightarrow> jsstring list" where
  "requests [] = []"
| "requests (Fetch u # es) = u # requests es"
| "requests (Wait ms # es) = requests es"

section \<open>tryFetchJson\<close>

definition httpMessage :: "response \<Rightarrow> jsstring" where
  "httpMessage res = ascii ''HTTP '' @ showNat (status res) @ ascii '' '' @ statusText res"

text \<open>The dash of the source's message is U+2014.\<close>

definition nonJsonMessage :: "jsstring \<Rightarrow> response \<Rightarrow> jsstring \<Rightarrow> jsstring" where
  "nonJsonMessage url res text =
     ascii ''Non-JSON response from '' @ url @ ascii '' (status '' @ showNat (status res)
       @ ascii '') '' @ [0x2014] @ ascii '' first chars: '' @ take 180 text"

text \<open>
  One pass through the body of the outer \<open>try\<close> (lines 33 to 45).  The inner \<open>case\<close> is
  the inner \<open>try\<close> block: \<open>JSON.parse\<close> throws or gives \<open>data\<close>, then the status is
  tested.  Whatever that block throws reaches the inner \<open>catch\<close>, which throws the
  non-JSON error in its place.
\<close>

definition attemptOnce ::
  "(jsstring \<Rightarrow> jsval option) \<Rightarrow> jsstring \<Rightarrow> outcome \<Rightarrow> js_error + (jsval \<times> jsstring)" where
  "attemptOnce JSON_parse url out =
     (case out of
        Rejects err \<Rightarrow> Inl err
      | Resolves res \<Rightarrow>
          (case body res of
             Inl err \<Rightarrow> Inl err
           | Inr text \<Rightarrow>
               (case (case JSON_parse text of
                        None \<Rightarrow> Inl (Thrown (ascii ''SyntaxError''))
                      | Some data \<Rightarrow>
                          if \<not> ok res then Inl (Error (httpMessage res))
                          else Inr (data, url)) of
                  Inl parseErr \<Rightarrow> Inl (Error (nonJsonMessage url res text))
                | Inr r \<Rightarrow> Inr r)))"

text \<open>
  The inner \<open>for\<close> loop over \<open>attempt\<close>, with \<open>lastErr\<close> and the event list as its
  state.  The first component of the result is the value returned from inside the loop,
  if any.
\<close>

function attemptLoop ::
  "(jsstring \<Rightarrow> jsval option) \<Rightarrow> network \<Rightarrow> jsval \<Rightarrow> jsstring \<Rightarrow> nat \<Rightarrow> nat \<Rightarrow>
     js_error option \<Rightarrow> event list \<Rightarrow> (jsval \<times> jsstring) option \<times> js_error option \<times> event list" where
  "attemptLoop JSON_parse net opts url tries attempt lastErr hist =
     (if attempt < tries then
        (case attemptOnce JSON_parse url (net hist url opts) of
           Inr r \<Rightarrow> (Some r, lastErr, hist @ [Fetch url])
         | Inl err \<Rightarrow>
             attemptLoop JSON_parse net opts url tries (Suc attempt) (Some err)
               (hist @ [Fetch url, Wait (500 * 2 ^ attempt)]))
      else (None, lastErr, hist))"
  by pat_completeness auto
termination
  by (relation "measure (\<lambda>(JSON_parse, net, opts, url, tries, attempt, lastErr, hist). tries - attempt)")
    auto

declare attemptLoop.simps [simp del]

text \<open>The outer \<open>for\<close> loop over \<open>urls\<close>.\<close>

fun urlLoop ::
  "(jsstring \<Rightarrow> jsval option) \<Rightarrow> network \<Rightarrow> jsval \<Rightarrow> jsstring list \<Rightarrow> nat \<Rightarrow>
     js_error option \<Rightarrow> event list \<Rightarrow> (jsval \<times> jsstring) option \<times> js_error option \<times> event list" where
  "urlLoop JSON_parse net opts [] tries lastErr hist = (None, lastErr, hist)"
| "urlLoop JSON_parse net opts (url # urls) tries lastErr hist =
     (case attemptLoop JSON_parse net opts url tries 0 lastErr hist of
        (Some r, lastErr', hist') \<Rightarrow> (Some r, lastErr', hist')
      | (None, lastErr', hist') \<Rightarrow> urlLoop JSON_parse net opts urls tries lastErr' hist')"

text \<open>
  \<open>tryFetchJson\<close> starts with \<open>lastErr = null\<close>; \<open>hist\<close> holds the events before the
  call.  \<open>Inr (data, url)\<close> is the returned object, \<open>Inl\<close> the value thrown at line 54.
\<close>

definition tryFetchJson ::
  "(jsstring \<Rightarrow> jsval option) \<Rightarrow> network \<Rightarrow> event list \<Rightarrow> jsstring list \<Rightarrow> jsval \<Rightarrow> nat \<Rightarrow>
     (js_error + (jsval \<times> jsstring)) \<times> event list" where
  "tryFetchJson JSON_parse net hist urls opts tries =
     (case urlLoop JSON_parse net opts urls tries None hist of
        (Some r, lastErr, hist') \<Rightarrow> (Inr r, hist')
      | (None, lastErr, hist') \<Rightarrow>
          (Inl (case lastErr of
                  Some err \<Rightarrow> err
                | None \<Rightarrow> Error (ascii ''All fetch attempts failed'')), hist'))"

section \<open>Numbers\<close>

text \<open>
  Arithmetic on numbers: the special values follow IEEE 754, finite results are computed
  in the reals (rounding, overflow and the sign of zero are not represented).
\<close>

fun jsAdd :: "jsnum \<Rightarrow> jsnum \<Rightarrow> jsnum" where
  "jsAdd NaN y = NaN"
| "jsAdd x NaN = NaN"
| "jsAdd (Fin a) (Fin b) = Fin (a + b)"
| "jsAdd PosInf NegInf = NaN"
| "jsAdd NegInf PosInf = NaN"
| "jsAdd PosInf y = PosInf"
| "jsAdd NegInf y = NegInf"
| "jsAdd x PosInf = PosInf"
| "jsAdd x NegInf = NegInf"

fun jsNeg :: "jsnum \<Rightarrow> jsnum" where
  "jsNeg NaN = NaN"
| "jsNeg (Fin a) = Fin (- a)"
| "jsNeg PosInf = NegInf"
| "jsNeg NegInf = PosInf"

definition jsSub :: "jsnum \<Rightarrow> jsnum \<Rightarrow> jsnum" where
  "jsSub x y = jsAdd x (jsNeg y)"

fun jsMul :: "jsnum \<Rightarrow> jsnum \<Rightarrow> jsnum" where
  "jsMul NaN y = NaN"
| "jsMul x NaN = NaN"
| "jsMul (Fin a) (Fin b) = Fin (a * b)"
| "jsMul (Fin a) PosInf = (if a = 0 then NaN else if 0 < a then PosInf else NegInf)"
| "jsMul (Fin a) NegInf = (if a = 0 then NaN else if 0 < a then NegInf else PosInf)"
| "jsMul PosInf (Fin b) = (if b = 0 then NaN else if 0 < b then PosInf else NegInf)"
| "jsMul NegInf (Fin b) = (if b = 0 then NaN else if 0 < b then NegInf else PosInf)"
| "jsMul PosInf PosInf = PosInf"
| "jsMul NegInf NegInf = PosInf"
| "jsMul PosInf NegInf = NegInf"
| "jsMul NegInf PosInf = NegInf"

fun jsDiv :: "jsnum \<Rightarrow> jsnum \<Rightarrow> jsnum" where
  "jsDiv NaN y = NaN"
| "jsDiv x NaN = NaN"
| "jsDiv (Fin a) (Fin b) =
     (if b = 0 then (if a = 0 then NaN else if 0 < a then PosInf else NegInf) else Fin (a / b))"
| "jsDiv (Fin a) y = Fin 0"
| "jsDiv x (Fin b) = (if 0 \<le> b then x else jsNeg x)"
| "jsDiv x y = NaN"

fun Math_sin :: "jsnum \<Rightarrow> jsnum" where
  "Math_sin (Fin a) = Fin (sin a)"
| "Math_sin x = NaN"

fun Math_cos :: "jsnum \<Rightarrow> jsnum" where
  "Math_cos (Fin a) = Fin (cos a)"
| "Math_cos x = NaN"

fun Math_sqrt :: "jsnum \<Rightarrow> jsnum" where
  "Math_sqrt (Fin a) = (if a < 0 then NaN else Fin (sqrt a))"
| "Math_sqrt PosInf = PosInf"
| "Math_sqrt x = NaN"

text \<open>The angle of the point \<open>(x, y)\<close>, in the range from \<open>- pi\<close> to \<open>pi\<close>.\<close>

definition atan2 :: "real \<Rightarrow> real \<Rightarrow> real" where
  "atan2 y x =
     (if 0 < x then arctan (y / x)
      else if x < 0 then (if 0 \<le> y then arctan (y / x) + pi else arctan (y / x) - pi)
      else if 0 < y then pi / 2 else if y < 0 then - pi / 2 else 0)"

fun Math_atan2 :: "jsnum \<Rightarrow> jsnum \<Rightarrow> jsnum" where
  "Math_atan2 NaN x = NaN"
| "Math_atan2 y NaN = NaN"
| "Math_atan2 (Fin b) (Fin a) = Fin (atan2 b a)"
| "Math_atan2 (Fin b) PosInf = Fin 0"
| "Math_atan2 (Fin b) NegInf = (if 0 \<le> b then Fin pi else Fin (- pi))"
| "Math_atan2 PosInf (Fin a) = Fin (pi / 2)"
| "Math_atan2 NegInf (Fin a) = Fin (- pi / 2)"
| "Math_atan2 PosInf PosInf = Fin (pi / 4)"
| "Math_atan2 PosInf NegInf = Fin (3 * pi / 4)"
| "Math_atan2 NegInf PosInf = Fin (- pi / 4)"
| "Math_atan2 NegInf NegInf = Fin (- 3 * pi / 4)"

text \<open>The test \<open>v > 0\<close> that a sort makes on the value of its comparator, and
  \<open>Number.isNaN\<close>.\<close>

fun isPositive :: "jsnum \<Rightarrow> bool" where
  "isPositive (Fin a) = (0 < a)"
| "isPositive PosInf = True"
| "isPositive x = False"

definition Number_isNaN :: "jsnum \<Rightarrow> bool" where
  "Number_isNaN x = (x = NaN)"

section \<open>haversine\<close>

definition toRad :: "jsnum \<Rightarrow> jsnum" where
  "toRad d = jsDiv (jsMul d (Fin pi)) (Fin 180)"

definition haversine :: "jsnum \<Rightarrow> jsnum \<Rightarrow> jsnum \<Rightarrow> jsnum \<Rightarrow> jsnum" where
  "haversine lat1 lon1 lat2 lon2 =
     (let R = Fin 6371;
          dLat = toRad (jsSub lat2 lat1);
          dLon = toRad (jsSub lon2 lon1);
          a = jsAdd (jsMul (Math_sin (jsDiv dLat (Fin 2))) (Math_sin (jsDiv dLat (Fin 2))))
                (jsMul (jsMul (jsMul (Math_cos (toRad lat1)) (Math_cos (toRad lat2)))
                   (Math_sin (jsDiv dLon (Fin 2)))) (Math_sin (jsDiv dLon (Fin 2))));
          c = jsMul (Fin 2) (Math_atan2 (Math_sqrt a) (Math_sqrt (jsSub (Fin 1) a)))
      in jsMul R c)"

section \<open>Values\<close>

text \<open>
  Parts of the platform that the search uses and that are not code of the program:
  \<open>JSON.parse\<close> and \<open>encodeURIComponent\<close> (\<open>None\<close> when they throw), \<open>parseFloat\<close> on
  a string, and the decimal form of a number in a template literal.  The last two round
  to and from doubles.
\<close>

record platform =
  jsonParse :: "jsstring \<Rightarrow> jsval option"
  encodeURIComponent :: "jsstring \<Rightarrow> jsstring option"
  parseFloatStr :: "jsstring \<Rightarrow> jsnum"
  numberToString :: "jsnum \<Rightarrow> jsstring"

text \<open>The white space and line terminators that \<open>trim\<close> removes.\<close>

definition isWhiteSpace :: "16 word \<Rightarrow> bool" where
  "isWhiteSpace c =
     (c \<in> set [0x9, 0xA, 0xB, 0xC, 0xD, 0x20, 0xA0, 0x1680, 0x2028, 0x2029, 0x202F, 0x205F,
                0x3000, 0xFEFF]
      \<or> (0x2000 \<le> c \<and> c \<le> 0x200A))"

definition trim :: "jsstring \<Rightarrow> jsstring" where
  "trim s = rev (dropWhile isWhiteSpace (rev (dropWhile isWhiteSpace s)))"

fun truthy :: "jsval \<Rightarrow> bool" where
  "truthy Undefined = False"
| "truthy Null = False"
| "truthy (Bool b) = b"
| "truthy (Num NaN) = False"
| "truthy (Num (Fin a)) = (a \<noteq> 0)"
| "truthy (Num x) = True"
| "truthy (Str s) = (s \<noteq> [])"
| "truthy (Arr xs) = True"
| "truthy (Obj kvs) = True"

text \<open>
  \<open>v.k\<close> for the property names of the source (\<open>lat\<close>, \<open>lon\<close>, \<open>center\<close>, \<open>elements\<close>),
  none of which is a property of a string, an array or a prototype: \<open>None\<close> is the
  \<open>TypeError\<close> of reading a property of \<open>undefined\<close> or \<open>null\<close>.
\<close>

fun getProp :: "jsval \<Rightarrow> jsstring \<Rightarrow> jsval option" where
  "getProp Undefined k = None"
| "getProp Null k = None"
| "getProp (Obj kvs) k = Some (case map_of kvs k of None \<Rightarrow> Undefined | Some v \<Rightarrow> v)"
| "getProp v k = Some Undefined"

text \<open>
  \<open>String(v)\<close>, which \<open>parseFloat\<close> applies to its argument.  An object of
  \<open>JSON.parse\<close> with a property named \<open>toString\<close> has no callable conversion, and
  \<open>String\<close> throws a \<open>TypeError\<close> (\<open>None\<close>).
\<close>

fun joinWith :: "jsstring \<Rightarrow> jsstring list \<Rightarrow> jsstring" where
  "joinWith sep [] = []"
| "joinWith sep [s] = s"
| "joinWith sep (s # t # ss) = s @ sep @ joinWith sep (t # ss)"

fun toString :: "platform \<Rightarrow> jsval \<Rightarrow> jsstring option" where
  "toString P Undefined = Some (ascii ''undefined'')"
| "toString P Null = Some (ascii ''null'')"
| "toString P (Bool b) = Some (if b then ascii ''true'' else ascii ''false'')"
| "toString P (Num x) = Some (numberToString P x)"
| "toString P (Str s) = Some s"
| "toString P (Arr xs) =
     map_option (joinWith (ascii '',''))
       (those (map (\<lambda>x. if x = Undefined \<or> x = Null then Some [] else toString P x) xs))"
| "toString P (Obj kvs) =
     (if map_of kvs (ascii ''toString'') = None then Some (ascii ''[object Object]'') else None)"

text \<open>
  \<open>parseFloat\<close>: a number comes back from its own decimal form; of the strings of the
  other values only those of strings and arrays can start with a number.
\<close>

fun parseFloat :: "platform \<Rightarrow> jsval \<Rightarrow> jsnum option" where
  "parseFloat P (Num x) = Some x"
| "parseFloat P (Str s) = Some (parseFloatStr P s)"
| "parseFloat P (Arr xs) = map_option (parseFloatStr P) (toString P (Arr xs))"
| "parseFloat P (Obj kvs) = map_option (\<lambda>s. NaN) (toString P (Obj kvs))"
| "parseFloat P v = Some NaN"

section \<open>Array.prototype.sort\<close>

text \<open>
  \<open>xs.sort(cmp)\<close> is stable, and for a comparator that orders the elements consistently
  its result is the one sorted arrangement that keeps equal elements in their order; a
  comparator value that is \<open>NaN\<close> counts as \<open>0\<close>.  The model inserts each element, from the
  last to the first, in front of the first element that must not precede it.
\<close>

fun insertBy :: "('a \<Rightarrow> 'a \<Rightarrow> jsnum) \<Rightarrow> 'a \<Rightarrow> 'a list \<Rightarrow> 'a list" where
  "insertBy cmp x [] = [x]"
| "insertBy cmp x (y # ys) = (if isPositive (cmp x y) then y # insertBy cmp x ys else x # y # ys)"

definition jsSort :: "('a \<Rightarrow> 'a \<Rightarrow> jsnum) \<Rightarrow> 'a list \<Rightarrow> 'a list" where
  "jsSort cmp xs = foldr (insertBy cmp) xs []"

section \<open>searchHospitals\<close>

record located =
  el :: jsval
  lat2 :: jsnum
  lon2 :: jsnum

record item = located +
  distance :: jsnum

record page =
  statusP :: jsstring
  toShow :: "item list"

text \<open>The callback of \<open>elements.map\<close> (lines 127 to 134); \<open>None\<close> when it throws.\<close>

definition andProp :: "jsval \<Rightarrow> jsstring \<Rightarrow> jsval option" where
  "andProp c k = (if truthy c then getProp c k else Some c)"

definition locate :: "platform \<Rightarrow> jsval \<Rightarrow> located option" where
  "locate P e =
     (case getProp e (ascii ''lat'') of
        None \<Rightarrow> None
      | Some elLat \<Rightarrow>
          (case (if elLat \<noteq> Undefined then Some elLat
                 else (case getProp e (ascii ''center'') of
                         None \<Rightarrow> None
                       | Some c \<Rightarrow> andProp c (ascii ''lat''))) of
             None \<Rightarrow> None
           | Some lat2' \<Rightarrow>
               (case getProp e (ascii ''lon'') of
                  None \<Rightarrow> None
                | Some elLon \<Rightarrow>
                    (case (if elLon \<noteq> Undefined then Some elLon
                           else (case getProp e (ascii ''center'') of
                                   None \<Rightarrow> None
                                 | Some c \<Rightarrow> andProp c (ascii ''lon''))) of
                       None \<Rightarrow> None
                     | Some lon2' \<Rightarrow>
                         (case (parseFloat P lat2', parseFloat P lon2') of
                            (Some a, Some b) \<Rightarrow> Some \<lparr>el = e, lat2 = a, lon2 = b\<rparr>
                          | _ \<Rightarrow> None)))))"

text \<open>
  Lines 127 to 138: the located elements whose coordinates pass the filter, each with its
  distance from \<open>(lat, lon)\<close>.  \<open>distanceKm\<close> stands for \<open>haversine\<close>, whose value on finite
  coordinates is a double fixed by the platform's rounding and \<open>Math\<close> functions; the
  search is defined for any function in its place.
\<close>

definition retained :: "located \<Rightarrow> bool" where
  "retained i = (\<not> Number_isNaN (lat2 i) \<and> \<not> Number_isNaN (lon2 i))"

definition withDistance ::
  "(jsnum \<Rightarrow> jsnum \<Rightarrow> jsnum \<Rightarrow> jsnum \<Rightarrow> jsnum) \<Rightarrow> jsnum \<Rightarrow> jsnum \<Rightarrow> located \<Rightarrow> item" where
  "withDistance distanceKm lat lon i =
     \<lparr>el = el i, lat2 = lat2 i, lon2 = lon2 i, distance = distanceKm lat lon (lat2 i) (lon2 i)\<rparr>"

definition buildItems ::
  "platform \<Rightarrow> (jsnum \<Rightarrow> jsnum \<Rightarrow> jsnum \<Rightarrow> jsnum \<Rightarrow> jsnum) \<Rightarrow> jsnum \<Rightarrow> jsnum \<Rightarrow> jsval list \<Rightarrow>
     item list option" where
  "buildItems P distanceKm lat lon elements =
     (case those (map (locate P) elements) of
        None \<Rightarrow> None
      | Some ls \<Rightarrow> Some (map (withDistance distanceKm lat lon) (filter retained ls)))"

definition byDistance :: "item \<Rightarrow> item \<Rightarrow> jsnum" where
  "byDistance a b = jsSub (distance a) (distance b)"

definition errorPage :: page where
  "errorPage =
     \<lparr>statusP = ascii ''An error occurred while searching. See console for details.'',
      toShow = []\<rparr>"

definition noResultsPage :: "jsstring \<Rightarrow> page" where
  "noResultsPage place =
     \<lparr>statusP = ascii ''No hospitals/clinics found within '' @ showNat (15000 div 1000)
        @ ascii '' km of '' @ place @ ascii ''.'',
      toShow = []\<rparr>"

text \<open>
  Lines 120 to 145, from the parsed geodata response to the status line and the list
  \<open>toShow\<close> that the card loop renders.  A value of \<open>elements\<close> that is not an array has no
  \<open>map\<close>, and only an object can have a \<open>length\<close> of \<open>0\<close>.
\<close>

definition showHospitals ::
  "platform \<Rightarrow> (jsnum \<Rightarrow> jsnum \<Rightarrow> jsnum \<Rightarrow> jsnum \<Rightarrow> jsnum) \<Rightarrow> jsnum \<Rightarrow> jsnum \<Rightarrow> jsstring \<Rightarrow> jsval \<Rightarrow> page" where
  "showHospitals P distanceKm lat lon place hospitalJson =
     (case getProp hospitalJson (ascii ''elements'') of
        None \<Rightarrow> errorPage
      | Some e \<Rightarrow>
          (case (if truthy e then e else Arr []) of
             Arr elements \<Rightarrow>
               if length elements = 0 then noResultsPage place
               else
                 (case buildItems P distanceKm lat lon elements of
                    None \<Rightarrow> errorPage
                  | Some items \<Rightarrow>
                      let toShow = take 30 (jsSort byDistance items)
                      in \<lparr>statusP = ascii ''Found '' @ showNat (length elements)
                            @ ascii '' items; showing nearest '' @ showNat (length toShow)
                            @ ascii ''.'',
                          toShow = toShow\<rparr>)
           | Obj kvs \<Rightarrow>
               if map_of kvs (ascii ''length'') = Some (Num (Fin 0)) then noResultsPage place
               else errorPage
           | _ \<Rightarrow> errorPage))"

definition overpassQuery :: "platform \<Rightarrow> jsnum \<Rightarrow> jsnum \<Rightarrow> jsstring" where
  \<open>overpassQuery P lat lon =
     (let around = ascii ''(around:'' @ showNat 15000 @ ascii '','' @ numberToString P lat
            @ ascii '','' @ numberToString P lon @ ascii '');''
      in trim (ascii ''\<newline>      [out:json][timeout:30];\<newline>      (\<newline>''
           @ ascii ''        node["amenity"="hospital"]'' @ around @ ascii ''\<newline>''
           @ ascii ''        way["amenity"="hospital"]'' @ around @ ascii ''\<newline>''
           @ ascii ''        relation["amenity"="hospital"]'' @ around @ ascii ''\<newline>''
           @ ascii ''        node["amenity"="clinic"]'' @ around @ ascii ''\<newline>''
           @ ascii ''        way["amenity"="clinic"]'' @ around @ ascii ''\<newline>''
           @ ascii ''        relation["amenity"="clinic"]'' @ around @ ascii ''\<newline>''
           @ ascii ''      );\<newline>      out center;\<newline>    ''))\<close>

text \<open>
  \<open>searchHospitals\<close> up to line 145, on the text of the input field: the page it leaves
  and the events of the run.  Every exception inside the outer \<open>try\<close> ends in \<open>errorPage\<close>.
\<close>

definition searchHospitals ::
  "platform \<Rightarrow> (jsnum \<Rightarrow> jsnum \<Rightarrow> jsnum \<Rightarrow> jsnum \<Rightarrow> jsnum) \<Rightarrow> network \<Rightarrow> jsstring \<Rightarrow>
     page \<times> event list" where
  "searchHospitals P distanceKm net value =
     (let place = trim value in
      if place = [] then
        (\<lparr>statusP = ascii ''Please type or select a tourist place.'', toShow = []\<rparr>, [])
      else
        (case encodeURIComponent P (place @ ascii '', Tamil Nadu, India'') of
           None \<Rightarrow> (errorPage, [])
         | Some q \<Rightarrow>
             let geoEndpoints =
               [ascii ''https://nominatim.openstreetmap.org/search?format=json&limit=1&q='' @ q,
                ascii ''https://geocode.maps.co/search?q='' @ q @ ascii ''&limit=1'']
             in
             (case tryFetchJson (jsonParse P) net [] geoEndpoints
                     (Obj [(ascii ''headers'',
                            Obj [(ascii ''Accept'', Str (ascii ''application/json''))])]) 2 of
                (Inl err, hist) \<Rightarrow> (errorPage, hist)
              | (Inr (geoData, geoUrl), hist) \<Rightarrow>
                  (case geoData of
                     Arr (first # others) \<Rightarrow>
                       (case (getProp first (ascii ''lat''), getProp first (ascii ''lon'')) of
                          (Some latV, Some lonV) \<Rightarrow>
                            (case (parseFloat P latV, parseFloat P lonV) of
                               (Some lat, Some lon) \<Rightarrow>
                            (case encodeURIComponent P (overpassQuery P lat lon) of
                               None \<Rightarrow> (errorPage, hist)
                             | Some encoded \<Rightarrow>
                                 let overpassUrls =
                                   [ascii ''https://overpass-api.de/api/interpreter?data='' @ encoded,
                                    ascii ''https://overpass.kumi.systems/api/interpreter?data=''
                                      @ encoded]
                                 in
                                 (case tryFetchJson (jsonParse P) net hist overpassUrls
                                         (Obj [(ascii ''method'', Str (ascii ''GET''))]) 3 of
                                    (Inl err, hist') \<Rightarrow>
                                      (\<lparr>statusP = ascii ''Failed to fetch hospital data (server busy or rate-limited). Try again in a moment.'',
                                         toShow = []\<rparr>, hist')
                                  | (Inr (hospitalJson, url), hist') \<Rightarrow>
                                      (showHospitals P distanceKm lat lon place hospitalJson, hist')))
                             | _ \<Rightarrow> (errorPage, hist))
                        | _ \<Rightarrow> (errorPage, hist))
                   | _ \<Rightarrow>
                       (\<lparr>statusP = ascii ''Place not found. Try a nearby city or check spelling.'',
                          toShow = []\<rparr>, hist)))))"

section \<open>escapeHtml\<close>

text \<open>
  The two helpers on a string: \<open>!s\<close> holds of the empty string only, and a global
  \<open>replace\<close> with a character class rewrites each code unit by itself.
\<close>

definition escapeChar :: "16 word \<Rightarrow> jsstring" where
  "escapeChar c =
     (if c = 0x26 then ascii ''&amp;''
      else if c = 0x3C then ascii ''&lt;''
      else if c = 0x3E then ascii ''&gt;''
      else if c = 0x22 then ascii ''&quot;''
      else if c = 0x27 then ascii ''&#39;''
      else [c])"

definition escapeHtml :: "jsstring \<Rightarrow> jsstring" where
  "escapeHtml s = (if s = [] then [] else concat (map escapeChar s))"

definition escapeHtmlAttr :: "jsstring \<Rightarrow> jsstring" where
  "escapeHtmlAttr s = concat (map (\<lambda>c. if c = 0x22 then ascii ''%22'' else [c]) (escapeHtml s))"

section \<open>The order of the ranking\<close>

text \<open>
  \<open>x \<le> y\<close> on numbers, which is false when either side is \<open>NaN\<close>; \<open>nearer\<close> compares
  two items by their distance.  \<open>keeps\<close> says that an element is located and passes the
  filter of line 135.
\<close>

fun jsLe :: "jsnum \<Rightarrow> jsnum \<Rightarrow> bool" where
  "jsLe NaN y = False"
| "jsLe x NaN = False"
| "jsLe (Fin a) (Fin b) = (a \<le> b)"
| "jsLe NegInf y = True"
| "jsLe x PosInf = True"
| "jsLe x y = False"

definition nearer :: "item \<Rightarrow> item \<Rightarrow> bool" where
  "nearer a b = jsLe (distance a) (distance b)"

definition keeps :: "platform \<Rightarrow> jsval \<Rightarrow> bool" where
  "keeps P e = (case locate P e of None \<Rightarrow> False | Some i \<Rightarrow> retained i)"

section \<open>The attempts of a call, one after the other\<close>

text \<open>
  The two loops make their attempts in one fixed order: each URL in turn, with the attempt
  numbers \<open>0\<close> up to \<open>tries - 1\<close>.  \<open>schedule\<close> is that order, \<open>failedHistory\<close> the
  events of its first \<open>j\<close> attempts when all of them fail, and \<open>attemptAt\<close> what attempt
  \<open>j\<close> gives after \<open>j\<close> failures.  \<open>run\<close> is the two loops as one loop over the schedule.
\<close>

definition schedule :: "jsstring list \<Rightarrow> nat \<Rightarrow> (jsstring \<times> nat) list" where
  "schedule urls tries = concat (map (\<lambda>url. map (Pair url) [0..<tries]) urls)"

fun failEvents :: "jsstring \<times> nat \<Rightarrow> event list" where
  "failEvents (url, attempt) = [Fetch url, Wait (500 * 2 ^ attempt)]"

definition failedHistory :: "(jsstring \<times> nat) list \<Rightarrow> nat \<Rightarrow> event list" where
  "failedHistory sched j = concat (map failEvents (take j sched))"

definition attemptAt ::
  "(jsstring \<Rightarrow> jsval option) \<Rightarrow> network \<Rightarrow> jsval \<Rightarrow> event list \<Rightarrow> (jsstring \<times> nat) list \<Rightarrow> nat \<Rightarrow>
     js_error + (jsval \<times> jsstring)" where
  "attemptAt JSON_parse net opts hist sched j =
     attemptOnce JSON_parse (fst (sched ! j)) (net (hist @ failedHistory sched j) (fst (sched ! j)) opts)"

fun run ::
  "(jsstring \<Rightarrow> jsval option) \<Rightarrow> network \<Rightarrow> jsval \<Rightarrow> (jsstring \<times> nat) list \<Rightarrow>
     js_error option \<Rightarrow> event list \<Rightarrow> (jsval \<times> jsstring) option \<times> js_error option \<times> event list" where
  "run JSON_parse net opts [] lastErr hist = (None, lastErr, hist)"
| "run JSON_parse net opts ((url, attempt) # rest) lastErr hist =
     (case attemptOnce JSON_parse url (net hist url opts) of
        Inr r \<Rightarrow> (Some r, lastErr, hist @ [Fetch url])
      | Inl err \<Rightarrow> run JSON_parse net opts rest (Some err) (hist @ [Fetch url, Wait (500 * 2 ^ attempt)]))"

section \<open>Concrete inputs\<close>

text \<open>
  A parser and a network for concrete runs: \<open>e2\<close> answers 200 with an empty JSON array,
  \<open>e3\<close> answers 503 with an HTML page, every other URL is unreachable.
\<close>

definition parseDemo :: "jsstring \<Rightarrow> jsval option" where
  "parseDemo s = (if s = ascii ''[]'' then Some (Arr []) else if s = ascii ''{}'' then Some (Obj []) else None)"

definition netDemo :: network where
  "netDemo hist url opts =
     (if url = ascii ''e2''
      then Resolves \<lparr>status = 200, statusText = ascii ''OK'', body = Inr (ascii ''[]'')\<rparr>
      else if url = ascii ''e3''
      then Resolves \<lparr>status = 503, statusText = ascii ''Service Unavailable'',
             body = Inr (ascii ''<html>'')\<rparr>
      else Rejects (Thrown (ascii ''TypeError'')))"

text \<open>
  A platform for concrete runs, geodata elements with direct coordinates, with a
  \<open>center\<close>, with an infinite latitude (the JSON number \<open>1e999\<close>), and a distance
  whose values can be computed: the difference of the latitudes.
\<close>

definition platformDemo :: platform where
  "platformDemo =
     \<lparr>jsonParse = parseDemo, encodeURIComponent = Some, parseFloatStr = (\<lambda>s. NaN),
      numberToString = (\<lambda>x. ascii ''0'')\<rparr>"

definition point :: "real \<Rightarrow> real \<Rightarrow> jsval" where
  "point a b = Obj [(ascii ''lat'', Num (Fin a)), (ascii ''lon'', Num (Fin b))]"


definition geodata :: "jsval list \<Rightarrow> jsval" where
  "geodata elements = Obj [(ascii ''elements'', Arr elements)]"

definition latitudeGap :: "jsnum \<Rightarrow> jsnum \<Rightarrow> jsnum \<Rightarrow> jsnum \<Rightarrow> jsnum" where
  "latitudeGap lat lon lat' lon' = jsSub lat' lat"

definition pointAtInfinity :: jsval where
  "pointAtInfinity = Obj [(ascii ''lat'', Num PosInf), (ascii ''lon'', Num (Fin 0))]"

definition tenElements :: "jsval list" where
  "tenElements = [point 1 0, point 2 0, point 3 0, point 4 0, Obj [], point 5 0, point 6 0,
     point 7 0, Obj [], point 8 0]"

section \<open>Properties of tryFetchJson\<close>

lemma attemptLoop_run:
  "attemptLoop JSON_parse net opts url tries attempt lastErr hist =
     run JSON_parse net opts (map (Pair url) [attempt..<tries]) lastErr hist"
proof (induction JSON_parse net opts url tries attempt lastErr hist rule: attemptLoop.induct)
  case (1 JSON_parse net opts url tries attempt lastErr hist)
  show ?case
  proof (cases "attempt < tries")
    case True
    then have u: "[attempt..<tries] = attempt # [Suc attempt..<tries]"
      by (simp add: upt_conv_Cons)
    show ?thesis
      using True 1 by (subst attemptLoop.simps) (simp add: u split: sum.splits)
  next
    case False
    then show ?thesis by (subst attemptLoop.simps) simp
  qed
qed

lemma run_append:
  "run JSON_parse net opts (xs @ ys) lastErr hist =
     (case run JSON_parse net opts xs lastErr hist of
        (Some r, lastErr', hist') \<Rightarrow> (Some r, lastErr', hist')
      | (None, lastErr', hist') \<Rightarrow> run JSON_parse net opts ys lastErr' hist')"
  by (induction xs arbitrary: lastErr hist) (auto split: sum.splits)

lemma urlLoop_run:
  "urlLoop JSON_parse net opts urls tries lastErr hist =
     run JSON_parse net opts (schedule urls tries) lastErr hist"
proof (induction urls arbitrary: lastErr hist)
  case Nil
  show ?case by (simp add: schedule_def)
next
  case (Cons url urls)
  have s: "schedule (url # urls) tries = map (Pair url) [0..<tries] @ schedule urls tries"
    by (simp add: schedule_def)
  show ?case
    by (simp add: s run_append attemptLoop_run Cons split: prod.splits option.splits)
qed

lemma run_all_fail:
  "\<forall>j<length xs. isl (attemptAt JSON_parse net opts hist xs j) \<Longrightarrow>
   run JSON_parse net opts xs lastErr hist =
     (None,
      (if xs = [] then lastErr
       else Some (projl (attemptAt JSON_parse net opts hist xs (length xs - 1)))),
      hist @ failedHistory xs (length xs))"
proof (induction xs arbitrary: lastErr hist)
  case Nil
  show ?case by (simp add: failedHistory_def)
next
  case (Cons x xs)
  obtain url attempt where x: "x = (url, attempt)" by (cases x)
  from Cons.prems have "isl (attemptAt JSON_parse net opts hist (x # xs) 0)" by auto
  then obtain err where e: "attemptOnce JSON_parse url (net hist url opts) = Inl err"
    by (auto simp: attemptAt_def failedHistory_def x isl_def)
  let ?h = "hist @ [Fetch url, Wait (500 * 2 ^ attempt)]"
  have shift: "attemptAt JSON_parse net opts hist (x # xs) (Suc j) = attemptAt JSON_parse net opts ?h xs j" for j
    by (simp add: attemptAt_def failedHistory_def x)
  have "\<forall>j<length xs. isl (attemptAt JSON_parse net opts ?h xs j)"
    using Cons.prems shift by (metis Suc_less_eq length_Cons)
  from Cons.IH [OF this, of "Some err"]
  have r: "run JSON_parse net opts xs (Some err) ?h =
     (None, (if xs = [] then Some err else Some (projl (attemptAt JSON_parse net opts ?h xs (length xs - 1)))),
      ?h @ failedHistory xs (length xs))" .
  have l: "xs \<noteq> [] \<Longrightarrow> attemptAt JSON_parse net opts hist (x # xs) (length xs) = attemptAt JSON_parse net opts ?h xs (length xs - 1)"
    using shift [of "length xs - 1"] by (cases xs) auto
  have z: "attemptAt JSON_parse net opts hist (x # xs) 0 = Inl err"
    using e by (simp add: attemptAt_def failedHistory_def x)
  show ?case
    using r e l z by (auto simp: x failedHistory_def)
qed


lemma length_schedule: "length (schedule urls tries) = length urls * tries"
  by (induction urls) (simp_all add: schedule_def)




lemma requests_append: "requests (xs @ ys) = requests xs @ requests ys"
  by (induction xs rule: requests.induct) auto

lemma requests_failed_row: "requests (concat (map (failEvents \<circ> Pair url) ns)) = replicate (length ns) url"
  by (induction ns) auto

lemma requests_failed_schedule:
  "requests (concat (map failEvents (schedule urls tries))) = concat (map (replicate tries) urls)"
  by (induction urls) (simp_all add: schedule_def requests_append requests_failed_row)


text \<open>
  An attempt whose body parses and whose status is outside 200 to 299 fails with the
  non-JSON error: the error thrown at line 39 does not leave the inner \<open>try\<close>.
\<close>

lemma attemptOnce_http_status:
  assumes "body res = Inr text" and "JSON_parse text = Some data" and "\<not> ok res"
  shows "attemptOnce JSON_parse url (Resolves res) = Inl (Error (nonJsonMessage url res text))"
  using assms by (simp add: attemptOnce_def)

lemma tryFetchJson_run:
  "tryFetchJson JSON_parse net hist urls opts tries =
     (case run JSON_parse net opts (schedule urls tries) None hist of
        (Some r, lastErr, hist') \<Rightarrow> (Inr r, hist')
      | (None, lastErr, hist') \<Rightarrow>
          (Inl (case lastErr of Some err \<Rightarrow> err | None \<Rightarrow> Error (ascii ''All fetch attempts failed'')), hist'))"
  by (simp add: tryFetchJson_def urlLoop_run)



text \<open>
  Claim C2.  When every attempt fails, \<open>tryFetchJson\<close> makes \<open>length urls * tries\<close>
  requests, each URL \<open>tries\<close> times in list order, and throws the error of the last
  attempt; when there was no attempt at all (no URL, or \<open>tries = 0\<close>) it throws the error
  \<open>All fetch attempts failed\<close>.
\<close>

theorem tryFetchJson_all_fail:
  assumes "\<forall>j < length urls * tries. isl (attemptAt JSON_parse net opts hist (schedule urls tries) j)"
  shows "tryFetchJson JSON_parse net hist urls opts tries =
           (Inl (if length urls * tries = 0 then Error (ascii ''All fetch attempts failed'')
                 else projl (attemptAt JSON_parse net opts hist (schedule urls tries)
                        (length urls * tries - 1))),
            hist @ failedHistory (schedule urls tries) (length urls * tries))
         \<and> requests (failedHistory (schedule urls tries) (length urls * tries)) =
             concat (map (replicate tries) urls)
         \<and> length (requests (failedHistory (schedule urls tries) (length urls * tries))) =
             length urls * tries"
proof -
  let ?s = "schedule urls tries"
  have l: "length ?s = length urls * tries" by (rule length_schedule)
  have "\<forall>j < length ?s. isl (attemptAt JSON_parse net opts hist ?s j)"
    using assms by (simp add: l)
  from run_all_fail [OF this, of None]
  have 1: "tryFetchJson JSON_parse net hist urls opts tries =
           (Inl (if length urls * tries = 0 then Error (ascii ''All fetch attempts failed'')
                 else projl (attemptAt JSON_parse net opts hist ?s (length urls * tries - 1))),
            hist @ failedHistory ?s (length urls * tries))"
    using l by (auto simp: tryFetchJson_run)
  have 2: "requests (failedHistory ?s (length urls * tries)) = concat (map (replicate tries) urls)"
    using l by (simp add: failedHistory_def requests_failed_schedule)
  have 3: "length (concat (map (replicate tries) urls)) = length urls * tries"
    by (induction urls) simp_all
  show ?thesis using 1 2 3 by simp
qed


theorem tryFetchJson_all_fail_witness:
  "tryFetchJson parseDemo netDemo [] [ascii ''e1'', ascii ''e3''] Undefined 2 =
     (Inl (Error (ascii ''Non-JSON response from e3 (status 503) '' @ [0x2014]
             @ ascii '' first chars: <html>'')),
      [Fetch (ascii ''e1''), Wait 500, Fetch (ascii ''e1''), Wait 1000,
       Fetch (ascii ''e3''), Wait 500, Fetch (ascii ''e3''), Wait 1000])
   \<and> requests [Fetch (ascii ''e1''), Wait 500, Fetch (ascii ''e1''), Wait 1000,
       Fetch (ascii ''e3''), Wait 500, Fetch (ascii ''e3''), Wait 1000] =
       [ascii ''e1'', ascii ''e1'', ascii ''e3'', ascii ''e3'']"
proof -
  let ?urls = "[ascii ''e1'', ascii ''e3'']"
  have f: "isl (attemptAt parseDemo netDemo Undefined [] (schedule ?urls 2) j)" if "j < 4" for j
  proof -
    from that have "j = 0 \<or> j = 1 \<or> j = 2 \<or> j = 3" by auto
    then show ?thesis by (elim disjE; hypsubst) code_simp+
  qed
  have h: "\<forall>j < length ?urls * 2. isl (attemptAt parseDemo netDemo Undefined [] (schedule ?urls 2) j)"
    using f by simp
  have e: "failedHistory (schedule ?urls 2) (length ?urls * 2) =
     [Fetch (ascii ''e1''), Wait 500, Fetch (ascii ''e1''), Wait 1000,
      Fetch (ascii ''e3''), Wait 500, Fetch (ascii ''e3''), Wait 1000]"
    by code_simp
  have l: "projl (attemptAt parseDemo netDemo Undefined [] (schedule ?urls 2) (length ?urls * 2 - 1)) =
     Error (ascii ''Non-JSON response from e3 (status 503) '' @ [0x2014]
             @ ascii '' first chars: <html>'')"
    by code_simp
  from tryFetchJson_all_fail [OF h] show ?thesis
    unfolding e l by simp
qed

text \<open>
  Claim C7.  A response with status 500, status text \<open>Internal Server Error\<close> and the
  JSON body \<open>{}\<close>: the error of the attempt is the non-JSON error of the inner
  \<open>catch\<close>, not the \<open>HTTP\<close> error thrown at line 39, and the status text does not occur
  in its message.
\<close>

theorem attemptOnce_http_error_replaced:
  "attemptOnce parseDemo (ascii ''e1'')
     (Resolves \<lparr>status = 500, statusText = ascii ''Internal Server Error'',
        body = Inr (ascii ''{}'')\<rparr>) =
     Inl (Error (ascii ''Non-JSON response from e1 (status 500) '' @ [0x2014]
            @ ascii '' first chars: {}''))
   \<and> \<not> sublist (ascii ''Internal Server Error'')
         (ascii ''Non-JSON response from e1 (status 500) '' @ [0x2014]
            @ ascii '' first chars: {}'')
   \<and> httpMessage \<lparr>status = 500, statusText = ascii ''Internal Server Error'',
        body = Inr (ascii ''{}'')\<rparr> = ascii ''HTTP 500 Internal Server Error''"
  by code_simp

section \<open>Properties of escapeHtml\<close>

lemma escapeChar_no_quote: "0x22 \<notin> set (escapeChar c)"
  by (simp add: escapeChar_def ascii_def)

lemma escapeHtml_no_quote: "0x22 \<notin> set (escapeHtml s)"
  by (auto simp: escapeHtml_def escapeChar_no_quote)

lemma concat_map_singleton_if:
  "q \<notin> set xs \<Longrightarrow> concat (map (\<lambda>c. if c = q then r else [c]) xs) = xs"
  by (induction xs) auto

text \<open>
  Claim C10.  \<open>escapeHtmlAttr\<close> and \<open>escapeHtml\<close> give the same string on every input
  string: \<open>escapeHtml\<close> leaves no double quote for the second replacement to find.
\<close>

theorem escapeHtmlAttr_eq_escapeHtml: "escapeHtmlAttr s = escapeHtml s"
  unfolding escapeHtmlAttr_def
  by (rule concat_map_singleton_if) (rule escapeHtml_no_quote)

section \<open>Properties of searchHospitals\<close>

lemma dropWhile_Nil_iff: "dropWhile Q xs = [] \<longleftrightarrow> (\<forall>x\<in>set xs. Q x)"
  by (induction xs) auto

lemma trim_Nil_iff: "trim s = [] \<longleftrightarrow> (\<forall>c\<in>set s. isWhiteSpace c)"
proof
  assume "trim s = []"
  then have "dropWhile isWhiteSpace (rev (dropWhile isWhiteSpace s)) = []"
    by (simp add: trim_def)
  then have a: "\<forall>c\<in>set (dropWhile isWhiteSpace s). isWhiteSpace c"
    by (simp add: dropWhile_Nil_iff)
  have "dropWhile isWhiteSpace s = []"
  proof (cases "dropWhile isWhiteSpace s")
    case Nil then show ?thesis .
  next
    case (Cons x xs)
    then have "\<not> isWhiteSpace x" using hd_dropWhile [of isWhiteSpace s] by auto
    with a Cons show ?thesis by auto
  qed
  then show "\<forall>c\<in>set s. isWhiteSpace c" by (simp add: dropWhile_Nil_iff)
next
  assume "\<forall>c\<in>set s. isWhiteSpace c"
  then have d: "dropWhile isWhiteSpace s = []" by (simp add: dropWhile_Nil_iff)
  show "trim s = []" unfolding trim_def d by simp
qed

text \<open>
  Claim C8.  On an input that is empty or all white space the search shows the request to
  type a place and ends with no event: no request was made.
\<close>

theorem searchHospitals_blank_input:
  assumes "\<forall>c\<in>set value. isWhiteSpace c"
  shows "searchHospitals P distanceKm net value =
           (\<lparr>statusP = ascii ''Please type or select a tourist place.'', toShow = []\<rparr>, [])"
  using assms by (simp add: searchHospitals_def trim_Nil_iff [symmetric])

theorem searchHospitals_blank_input_witness:
  "searchHospitals platformDemo haversine netDemo (ascii ''  '' @ [0x9, 0xA0]) =
     (\<lparr>statusP = ascii ''Please type or select a tourist place.'', toShow = []\<rparr>, [])"
proof -
  have h: "\<forall>c\<in>set (ascii ''  '' @ [0x9, 0xA0]). isWhiteSpace c"
    by (simp add: ascii_def isWhiteSpace_def)
  from searchHospitals_blank_input [OF h] show ?thesis .
qed

lemma isPositive_jsSub: "x \<noteq> NaN \<Longrightarrow> y \<noteq> NaN \<Longrightarrow> isPositive (jsSub x y) \<longleftrightarrow> \<not> jsLe x y"
  by (cases x; cases y) (auto simp: jsSub_def)

lemma jsLe_total: "x \<noteq> NaN \<Longrightarrow> y \<noteq> NaN \<Longrightarrow> jsLe x y \<or> jsLe y x"
  by (cases x; cases y) auto

lemma jsLe_trans: "jsLe x y \<Longrightarrow> jsLe y z \<Longrightarrow> jsLe x z"
  by (cases x; cases y; cases z) auto

lemma set_insertBy: "set (insertBy cmp x ys) = insert x (set ys)"
  by (induction ys) auto

lemma length_insertBy: "length (insertBy cmp x ys) = Suc (length ys)"
  by (induction ys) auto

lemma mset_insertBy: "mset (insertBy cmp x ys) = add_mset x (mset ys)"
  by (induction ys) auto

lemma length_jsSort: "length (jsSort cmp xs) = length xs"
  by (induction xs) (simp_all add: jsSort_def length_insertBy)

lemma mset_jsSort: "mset (jsSort cmp xs) = mset xs"
  by (induction xs) (simp_all add: jsSort_def mset_insertBy)

lemma set_jsSort: "set (jsSort cmp xs) = set xs"
  using mset_jsSort [of cmp xs] by (metis set_mset_mset)

lemma jsSort_Cons: "jsSort cmp (x # xs) = insertBy cmp x (jsSort cmp xs)"
  by (simp add: jsSort_def)

lemma sorted_insertBy:
  assumes "distance x \<noteq> NaN" and "\<forall>y\<in>set ys. distance y \<noteq> NaN" and "sorted_wrt nearer ys"
  shows "sorted_wrt nearer (insertBy byDistance x ys)"
  using assms
proof (induction ys)
  case Nil
  then show ?case by simp
next
  case (Cons y ys)
  show ?case
  proof (cases "isPositive (byDistance x y)")
    case True
    then have yx: "nearer y x"
      using Cons.prems(1,2) isPositive_jsSub [of "distance x" "distance y"]
        jsLe_total [of "distance x" "distance y"]
      by (auto simp: byDistance_def nearer_def)
    have "sorted_wrt nearer (insertBy byDistance x ys)"
      using Cons by simp
    then show ?thesis
      using True yx Cons.prems(3) by (auto simp: set_insertBy)
  next
    case False
    then have xy: "nearer x y"
      using Cons.prems(1,2) isPositive_jsSub [of "distance x" "distance y"]
      by (auto simp: byDistance_def nearer_def)
    then have "\<forall>z\<in>set ys. nearer x z"
      using Cons.prems(3) by (auto simp: nearer_def intro: jsLe_trans)
    then show ?thesis
      using False xy Cons.prems(3) by simp
  qed
qed

lemma sorted_jsSort:
  "\<forall>i\<in>set items. distance i \<noteq> NaN \<Longrightarrow> sorted_wrt nearer (jsSort byDistance items)"
proof (induction items)
  case Nil
  show ?case by (simp add: jsSort_def)
next
  case (Cons x xs)
  then show ?case
    by (simp add: jsSort_Cons sorted_insertBy set_jsSort)
qed

lemma sorted_wrt_take: "sorted_wrt R xs \<Longrightarrow> sorted_wrt R (take n xs)"
  by (metis append_take_drop_id sorted_wrt_append)

lemma take_nearest:
  assumes "sorted_wrt R xs" and "a \<in> set (take n xs)" and "b \<in> set (drop n xs)"
  shows "R a b"
  using assms by (metis append_take_drop_id sorted_wrt_append)

lemma those_map_Some:
  "those (map f xs) = Some ys \<Longrightarrow> ys = map (\<lambda>x. the (f x)) xs \<and> (\<forall>x\<in>set xs. f x \<noteq> None)"
  by (induction xs arbitrary: ys) (auto split: option.splits)

lemma locate_el: "locate P e = Some i \<Longrightarrow> el i = e"
  by (auto simp: locate_def split: option.splits if_splits)

lemma buildItems_Some:
  assumes "buildItems P distanceKm lat lon elements = Some items"
  shows "items = map (withDistance distanceKm lat lon)
                   (filter retained (map (\<lambda>e. the (locate P e)) elements))"
    and "\<forall>e\<in>set elements. locate P e \<noteq> None"
  using assms those_map_Some [of "locate P" elements]
  by (auto simp: buildItems_def split: option.splits)

lemma el_withDistance: "el (withDistance distanceKm lat lon i) = el i"
  by (simp add: withDistance_def)

lemma buildItems_el:
  assumes "buildItems P distanceKm lat lon elements = Some items"
  shows "map el items = filter (keeps P) elements"
proof -
  have l: "\<forall>e\<in>set elements. locate P e \<noteq> None"
    using buildItems_Some(2) [OF assms] .
  have "map el (map (withDistance distanceKm lat lon)
          (filter retained (map (\<lambda>e. the (locate P e)) xs))) = filter (keeps P) xs"
    if "\<forall>e\<in>set xs. locate P e \<noteq> None" for xs
    using that
  proof (induction xs)
    case Nil
    show ?case by simp
  next
    case (Cons x xs)
    then obtain i where i: "locate P x = Some i" by auto
    with Cons show ?case
      using locate_el [OF i] by (simp add: keeps_def el_withDistance)
  qed
  from this [OF l] show ?thesis
    using buildItems_Some(1) [OF assms] by simp
qed

lemma showHospitals_found:
  assumes "getProp hospitalJson (ascii ''elements'') = Some (Arr elements)"
    and "elements \<noteq> []"
    and "buildItems P distanceKm lat lon elements = Some items"
  shows "showHospitals P distanceKm lat lon place hospitalJson =
           \<lparr>statusP = ascii ''Found '' @ showNat (length elements)
              @ ascii '' items; showing nearest '' @ showNat (min 30 (length items)) @ ascii ''.'',
            toShow = take 30 (jsSort byDistance items)\<rparr>"
  using assms by (simp add: showHospitals_def Let_def length_jsSort min_def)

lemma getProp_geodata: "getProp (geodata elements) (ascii ''elements'') = Some (Arr elements)"
  by (simp add: geodata_def)

lemma locate_point: "locate P (point a b) = Some \<lparr>el = point a b, lat2 = Fin a, lon2 = Fin b\<rparr>"
  by (simp add: locate_def point_def ascii_def)

lemma keeps_point: "keeps P (point a b)"
  by (simp add: keeps_def locate_point retained_def Number_isNaN_def)

lemma locate_no_coordinates: "locate P (Obj []) = Some \<lparr>el = Obj [], lat2 = NaN, lon2 = NaN\<rparr>"
  by (simp add: locate_def andProp_def)

lemma keeps_no_coordinates: "\<not> keeps P (Obj [])"
  by (simp add: keeps_def locate_no_coordinates retained_def Number_isNaN_def)

text \<open>
  Claim C3, amended.  When no retained record has the distance \<open>NaN\<close>, the list handed to
  the card loop is the first 30 of the retained records arranged in ascending order of
  distance: it is sorted, it has \<open>min 30 n\<close> records for \<open>n\<close> retained ones, and it is
  the start of a sorted rearrangement of all of them.  This holds for any distance
  function.
\<close>

theorem showHospitals_ranked:
  assumes "getProp hospitalJson (ascii ''elements'') = Some (Arr elements)"
    and "buildItems P distanceKm lat lon elements = Some items"
    and "\<forall>i\<in>set items. distance i \<noteq> NaN"
  shows "toShow (showHospitals P distanceKm lat lon place hospitalJson) =
           take 30 (jsSort byDistance items)
         \<and> sorted_wrt nearer (toShow (showHospitals P distanceKm lat lon place hospitalJson))
         \<and> length (toShow (showHospitals P distanceKm lat lon place hospitalJson)) =
             min 30 (length items)
         \<and> sorted_wrt nearer (jsSort byDistance items)
         \<and> mset (jsSort byDistance items) = mset items"
proof -
  have t: "toShow (showHospitals P distanceKm lat lon place hospitalJson) =
             take 30 (jsSort byDistance items)"
  proof (cases "elements = []")
    case True
    with assms(2) have "items = []" by (simp add: buildItems_def)
    with True assms(1) show ?thesis
      by (simp add: showHospitals_def noResultsPage_def jsSort_def)
  next
    case False
    from showHospitals_found [OF assms(1) False assms(2)] show ?thesis by simp
  qed
  have s: "sorted_wrt nearer (jsSort byDistance items)"
    using assms(3) by (rule sorted_jsSort)
  show ?thesis
    using t s by (simp add: sorted_wrt_take length_jsSort mset_jsSort)
qed

theorem showHospitals_ranked_witness:
  "map distance (toShow (showHospitals platformDemo latitudeGap (Fin 0) (Fin 0) (ascii ''Ooty'')
      (geodata [point 2.1 0, point 0.5 0, point 10.3 0, point 1.0 0, point 7.7 0]))) =
     [Fin 0.5, Fin 1.0, Fin 2.1, Fin 7.7, Fin 10.3]
   \<and> sorted_wrt nearer (toShow (showHospitals platformDemo latitudeGap (Fin 0) (Fin 0) (ascii ''Ooty'')
      (geodata [point 2.1 0, point 0.5 0, point 10.3 0, point 1.0 0, point 7.7 0])))"
proof -
  let ?els = "[point 2.1 0, point 0.5 0, point 10.3 0, point 1.0 0, point 7.7 0]"
  let ?items = "map (\<lambda>a. \<lparr>el = point a 0, lat2 = Fin a, lon2 = Fin 0, distance = Fin a\<rparr>)
                  [2.1, 0.5, 10.3, 1.0, 7.7]"
  have h1: "getProp (geodata ?els) (ascii ''elements'') = Some (Arr ?els)"
    by (rule getProp_geodata)
  have h2: "buildItems platformDemo latitudeGap (Fin 0) (Fin 0) ?els = Some ?items"
    by (simp add: buildItems_def locate_point retained_def Number_isNaN_def withDistance_def
        latitudeGap_def jsSub_def)
  have h3: "\<forall>i\<in>set ?items. distance i \<noteq> NaN" by simp
  have s: "map distance (take 30 (jsSort byDistance ?items)) =
             [Fin 0.5, Fin 1.0, Fin 2.1, Fin 7.7, Fin 10.3]"
    by (simp add: jsSort_def byDistance_def jsSub_def)
  from showHospitals_ranked [OF h1 h2 h3, of "ascii ''Ooty''"] s show ?thesis by simp
qed

lemma locate_pointAtInfinity:
  "locate P pointAtInfinity = Some \<lparr>el = pointAtInfinity, lat2 = PosInf, lon2 = Fin 0\<rparr>"
  by (simp add: locate_def pointAtInfinity_def ascii_def)

lemma haversine_infinite_latitude_NaN: "haversine lat1 lon1 PosInf lon' = NaN"
  by (cases lat1) (simp_all add: haversine_def toRad_def jsSub_def Let_def)

lemma haversine_infinite_latitude: "haversine (Fin 0) (Fin 0) PosInf (Fin 0) = NaN"
  by (simp add: haversine_def toRad_def jsSub_def Let_def)

text \<open>
  Claim C3 as stated fails when a distance is \<open>NaN\<close>: an element whose latitude is
  infinite passes the filter, \<open>haversine\<close> gives \<open>NaN\<close> for it, and the list shown is
  not in ascending order.
\<close>

theorem showHospitals_unordered_counterexample:
  "map distance (toShow (showHospitals platformDemo haversine (Fin 0) (Fin 0) (ascii ''Ooty'')
      (geodata [pointAtInfinity, point 1 1]))) = [NaN, haversine (Fin 0) (Fin 0) (Fin 1) (Fin 1)]
   \<and> \<not> sorted_wrt nearer (toShow (showHospitals platformDemo haversine (Fin 0) (Fin 0)
      (ascii ''Ooty'') (geodata [pointAtInfinity, point 1 1])))"
proof -
  let ?els = "[pointAtInfinity, point 1 1]"
  let ?items = "[\<lparr>el = pointAtInfinity, lat2 = PosInf, lon2 = Fin 0, distance = NaN\<rparr>,
                 \<lparr>el = point 1 1, lat2 = Fin 1, lon2 = Fin 1,
                   distance = haversine (Fin 0) (Fin 0) (Fin 1) (Fin 1)\<rparr>]"
  have b: "buildItems platformDemo haversine (Fin 0) (Fin 0) ?els = Some ?items"
    by (simp add: buildItems_def locate_point locate_pointAtInfinity retained_def
        Number_isNaN_def withDistance_def haversine_infinite_latitude)
  have s: "jsSort byDistance ?items = ?items"
    by (simp add: jsSort_def byDistance_def jsSub_def)
  from showHospitals_found [OF getProp_geodata _ b, of "ascii ''Ooty''"]
  have "toShow (showHospitals platformDemo haversine (Fin 0) (Fin 0) (ascii ''Ooty'')
      (geodata ?els)) = ?items"
    by (simp add: s)
  then show ?thesis by (simp add: nearer_def)
qed

text \<open>
  Claim C4, amended.  The status line reports the number of elements of the geodata
  response, dropped ones included, and the number of records shown, which is the number
  of retained elements capped at 30.
\<close>

theorem showHospitals_reports_all_elements:
  assumes "getProp hospitalJson (ascii ''elements'') = Some (Arr elements)"
    and "elements \<noteq> []"
    and "buildItems P distanceKm lat lon elements = Some items"
  shows "statusP (showHospitals P distanceKm lat lon place hospitalJson) =
           ascii ''Found '' @ showNat (length elements) @ ascii '' items; showing nearest ''
             @ showNat (length (toShow (showHospitals P distanceKm lat lon place hospitalJson)))
             @ ascii ''.''
         \<and> length (toShow (showHospitals P distanceKm lat lon place hospitalJson)) =
             min 30 (length (filter (keeps P) elements))
         \<and> length items = length (filter (keeps P) elements)"
proof -
  have "length (map el items) = length (filter (keeps P) elements)"
    using buildItems_el [OF assms(3)] by simp
  then have l: "length items = length (filter (keeps P) elements)" by simp
  from showHospitals_found [OF assms] l show ?thesis
    by (simp add: length_jsSort min.commute)
qed

lemma keeps_tenElements: "filter (keeps P) tenElements =
  [point 1 0, point 2 0, point 3 0, point 4 0, point 5 0, point 6 0, point 7 0, point 8 0]"
  by (simp add: tenElements_def keeps_point keeps_no_coordinates)

lemma buildItems_tenElements:
  "buildItems P distanceKm lat lon tenElements =
     Some (map (\<lambda>a. withDistance distanceKm lat lon \<lparr>el = point a 0, lat2 = Fin a, lon2 = Fin 0\<rparr>)
       [1, 2, 3, 4, 5, 6, 7, 8])"
  by (simp add: buildItems_def tenElements_def locate_point locate_no_coordinates retained_def
      Number_isNaN_def)

lemma showNat_10: "showNat 10 = ascii ''10''"
  by code_simp

lemma showNat_8: "showNat 8 = ascii ''8''"
  by code_simp

theorem showHospitals_reports_all_elements_witness:
  "statusP (showHospitals platformDemo haversine (Fin 0) (Fin 0) (ascii ''Ooty'') (geodata tenElements)) =
     ascii ''Found 10 items; showing nearest 8.''
   \<and> length (toShow (showHospitals platformDemo haversine (Fin 0) (Fin 0) (ascii ''Ooty'')
        (geodata tenElements))) = 8"
proof -
  have h2: "tenElements \<noteq> []" by (simp add: tenElements_def)
  have l: "length tenElements = 10" by (simp add: tenElements_def)
  let ?page = "showHospitals platformDemo haversine (Fin 0) (Fin 0) (ascii ''Ooty'') (geodata tenElements)"
  note t = showHospitals_reports_all_elements [OF getProp_geodata h2 buildItems_tenElements,
      of platformDemo haversine "Fin 0" "Fin 0" "ascii ''Ooty''"]
  have n: "length (toShow ?page) = 8"
    using t by (simp add: keeps_tenElements)
  have "statusP ?page = ascii ''Found '' @ showNat 10 @ ascii '' items; showing nearest ''
          @ showNat 8 @ ascii ''.''"
    using t unfolding n l by blast
  then show ?thesis
    using n by (simp add: showNat_10 showNat_8 ascii_def)
qed

text \<open>
  Claim C4 as stated fails on ten elements of which two have no coordinates: eight are
  retained and the status line reports ten.
\<close>

theorem showHospitals_total_counterexample:
  "length (filter (keeps platformDemo) tenElements) = 8
   \<and> statusP (showHospitals platformDemo haversine (Fin 0) (Fin 0) (ascii ''Ooty'')
        (geodata tenElements)) = ascii ''Found 10 items; showing nearest 8.''
   \<and> statusP (showHospitals platformDemo haversine (Fin 0) (Fin 0) (ascii ''Ooty'')
        (geodata tenElements)) \<noteq> ascii ''Found 8 items; showing nearest 8.''"
proof -
  let ?items = "map (\<lambda>a. withDistance haversine (Fin 0) (Fin 0)
                  \<lparr>el = point a 0, lat2 = Fin a, lon2 = Fin 0\<rparr>) [1, 2, 3, 4, 5, 6, 7, 8]"
  have h2: "tenElements \<noteq> []" by (simp add: tenElements_def)
  have l: "length tenElements = 10" by (simp add: tenElements_def)
  have k: "min 30 (length ?items) = 8" by simp
  note f = showHospitals_found [OF getProp_geodata h2 buildItems_tenElements,
      of platformDemo haversine "Fin 0" "Fin 0" "ascii ''Ooty''"]
  have "statusP (showHospitals platformDemo haversine (Fin 0) (Fin 0) (ascii ''Ooty'')
        (geodata tenElements)) = ascii ''Found '' @ showNat 10 @ ascii '' items; showing nearest ''
          @ showNat 8 @ ascii ''.''"
    by (simp only: f page.select_convs l k)
  then have "statusP (showHospitals platformDemo haversine (Fin 0) (Fin 0) (ascii ''Ooty'')
        (geodata tenElements)) = ascii ''Found 10 items; showing nearest 8.''"
    by (simp add: showNat_10 showNat_8 ascii_def)
  then show ?thesis by (simp add: keeps_tenElements ascii_def)
qed



lemma keeps_iff:
  "keeps P e \<longleftrightarrow> (\<exists>i. locate P e = Some i \<and> lat2 i \<noteq> NaN \<and> lon2 i \<noteq> NaN)"
  by (auto simp: keeps_def retained_def Number_isNaN_def split: option.splits)

lemma locate_Obj:
  "locate P (Obj kvs) =
     (let prop = (\<lambda>k. case map_of kvs k of None \<Rightarrow> Undefined | Some v \<Rightarrow> v);
          c = prop (ascii ''center'');
          viaCenter = (\<lambda>k. if truthy c then the (getProp c k) else c)
      in case (parseFloat P (if prop (ascii ''lat'') \<noteq> Undefined then prop (ascii ''lat'')
                              else viaCenter (ascii ''lat'')),
               parseFloat P (if prop (ascii ''lon'') \<noteq> Undefined then prop (ascii ''lon'')
                              else viaCenter (ascii ''lon''))) of
           (Some a, Some b) \<Rightarrow> Some \<lparr>el = Obj kvs, lat2 = a, lon2 = b\<rparr>
         | _ \<Rightarrow> None)"
proof -
  have t: "andProp c k = Some (if truthy c then the (getProp c k) else c)" for c k
    by (cases c) (auto simp: andProp_def)
  show ?thesis
    by (simp add: locate_def t Let_def)
qed






text \<open>
  Claim C6, amended.  The search shows the no-results page exactly when the response has
  no elements (an empty, missing or falsy \<open>elements\<close>); when it has elements and none is
  retained, the page is the \<open>Found\<close> line with the number of elements, \<open>0\<close> shown and
  an empty list.
\<close>

theorem showHospitals_no_results:
  assumes "getProp hospitalJson (ascii ''elements'') = Some e"
    and "(if truthy e then e else Arr []) = Arr elements"
    and "buildItems P distanceKm lat lon elements = Some items"
  shows "(showHospitals P distanceKm lat lon place hospitalJson = noResultsPage place) =
           (elements = [])
         \<and> (elements \<noteq> [] \<and> items = [] \<longrightarrow>
              showHospitals P distanceKm lat lon place hospitalJson =
                \<lparr>statusP = ascii ''Found '' @ showNat (length elements)
                   @ ascii '' items; showing nearest '' @ showNat 0 @ ascii ''.'',
                 toShow = []\<rparr>)"
proof -
  have f: "showHospitals P distanceKm lat lon place hospitalJson =
           \<lparr>statusP = ascii ''Found '' @ showNat (length elements)
              @ ascii '' items; showing nearest '' @ showNat (min 30 (length items)) @ ascii ''.'',
            toShow = take 30 (jsSort byDistance items)\<rparr>" if "elements \<noteq> []"
  proof -
    from that assms(2) have "e = Arr elements" by (auto split: if_splits)
    with assms(1) have "getProp hospitalJson (ascii ''elements'') = Some (Arr elements)" by simp
    from showHospitals_found [OF this that assms(3)] show ?thesis .
  qed
  have n: "showHospitals P distanceKm lat lon place hospitalJson = noResultsPage place"
    if "elements = []"
    using that assms(1,2) by (simp add: showHospitals_def)
  have d: "showHospitals P distanceKm lat lon place hospitalJson \<noteq> noResultsPage place"
    if "elements \<noteq> []"
    using f [OF that] by (simp add: noResultsPage_def ascii_def)
  show ?thesis
  proof (cases "elements = []")
    case True
    with n show ?thesis by simp
  next
    case False
    with f d show ?thesis by (simp add: jsSort_def)
  qed
qed

theorem showHospitals_no_results_witness:
  "showHospitals platformDemo haversine (Fin 0) (Fin 0) (ascii ''Ooty'') (geodata []) =
     noResultsPage (ascii ''Ooty'')
   \<and> showHospitals platformDemo haversine (Fin 0) (Fin 0) (ascii ''Ooty'') (Obj []) =
     noResultsPage (ascii ''Ooty'')
   \<and> showHospitals platformDemo haversine (Fin 0) (Fin 0) (ascii ''Ooty'') (geodata [Obj [], Obj []]) =
        \<lparr>statusP = ascii ''Found 2 items; showing nearest 0.'', toShow = []\<rparr>"
proof -
  have a1: "(if truthy (Arr []) then Arr [] else Arr []) = Arr []" by simp
  have a2: "buildItems platformDemo haversine (Fin 0) (Fin 0) [] = Some []"
    by (simp add: buildItems_def)
  have b0: "getProp (Obj []) (ascii ''elements'') = Some Undefined" by simp
  have b1: "(if truthy Undefined then Undefined else Arr []) = Arr []" by simp
  have c1: "(if truthy (Arr [Obj [], Obj []]) then Arr [Obj [], Obj []] else Arr []) =
              Arr [Obj [], Obj []]" by simp
  have c2: "buildItems platformDemo haversine (Fin 0) (Fin 0) [Obj [], Obj []] = Some []"
    by (simp add: buildItems_def locate_no_coordinates retained_def Number_isNaN_def)
  have s2: "showNat 2 = ascii ''2''" by code_simp
  have s0: "showNat 0 = ascii ''0''" by code_simp
  have l: "length [Obj [], Obj []] = (2::nat)" by simp
  note t1 = showHospitals_no_results [OF getProp_geodata a1 a2, of "ascii ''Ooty''"]
  note t2 = showHospitals_no_results [OF b0 b1 a2, of "ascii ''Ooty''"]
  note t3 = showHospitals_no_results [OF getProp_geodata c1 c2, of "ascii ''Ooty''"]
  have "showHospitals platformDemo haversine (Fin 0) (Fin 0) (ascii ''Ooty'') (geodata [Obj [], Obj []]) =
        \<lparr>statusP = ascii ''Found '' @ showNat 2 @ ascii '' items; showing nearest '' @ showNat 0
           @ ascii ''.'', toShow = []\<rparr>"
    using t3 unfolding l by blast
  then show ?thesis
    using t1 t2 by (simp add: s2 s0 ascii_def)
qed

text \<open>
  Claim C6 as stated fails on a response whose only element has no coordinates: nothing
  is retained and the page is not the no-results page.
\<close>

theorem showHospitals_nothing_retained_counterexample:
  "buildItems platformDemo haversine (Fin 0) (Fin 0) [Obj []] = Some []
   \<and> showHospitals platformDemo haversine (Fin 0) (Fin 0) (ascii ''Ooty'') (geodata [Obj []]) =
       \<lparr>statusP = ascii ''Found 1 items; showing nearest 0.'', toShow = []\<rparr>
   \<and> showHospitals platformDemo haversine (Fin 0) (Fin 0) (ascii ''Ooty'') (geodata [Obj []]) \<noteq>
       noResultsPage (ascii ''Ooty'')"
proof -
  have b: "buildItems platformDemo haversine (Fin 0) (Fin 0) [Obj []] = Some []"
    by (simp add: buildItems_def locate_no_coordinates retained_def Number_isNaN_def)
  have s1: "showNat (Suc 0) = ascii ''1''" by code_simp
  have s0: "showNat 0 = ascii ''0''" by code_simp
  have k: "min 30 (length ([]::item list)) = 0" by simp
  have l: "length [Obj []] = (1::nat)" by simp
  note f = showHospitals_found [OF getProp_geodata _ b, of "ascii ''Ooty''"]
  have "showHospitals platformDemo haversine (Fin 0) (Fin 0) (ascii ''Ooty'') (geodata [Obj []]) =
       \<lparr>statusP = ascii ''Found '' @ showNat 1 @ ascii '' items; showing nearest '' @ showNat 0
           @ ascii ''.'', toShow = []\<rparr>"
    using f unfolding l k by (simp add: jsSort_def)
  then show ?thesis
    using b by (simp add: s1 s0 ascii_def noResultsPage_def)
qed

text \<open>Forty elements with coordinates: thirty are shown, forty are reported.\<close>

lemma those_locate_points:
  "those (map (\<lambda>a. locate P (point a b)) as) =
     Some (map (\<lambda>a. \<lparr>el = point a b, lat2 = Fin a, lon2 = Fin b\<rparr>) as)"
  by (induction as) (simp_all add: locate_point)

lemma buildItems_points:
  "buildItems P distanceKm lat lon (map (\<lambda>a. point a b) as) =
     Some (map (\<lambda>a. withDistance distanceKm lat lon \<lparr>el = point a b, lat2 = Fin a, lon2 = Fin b\<rparr>) as)"
proof -
  have "filter retained (map (\<lambda>a. \<lparr>el = point a b, lat2 = Fin a, lon2 = Fin b\<rparr>) as) =
          map (\<lambda>a. \<lparr>el = point a b, lat2 = Fin a, lon2 = Fin b\<rparr>) as"
    by (induction as) (simp_all add: retained_def Number_isNaN_def)
  then show ?thesis
    by (simp add: buildItems_def those_locate_points comp_def)
qed

lemma showHospitals_forty:
  "length (toShow (showHospitals P distanceKm lat lon place
      (geodata (map (\<lambda>a. point a 0) (map real [0..<40]))))) = 30
   \<and> statusP (showHospitals P distanceKm lat lon place
      (geodata (map (\<lambda>a. point a 0) (map real [0..<40])))) =
       ascii ''Found 40 items; showing nearest 30.''"
proof -
  let ?els = "map (\<lambda>a. point a 0) (map real [0..<40])"
  have n: "?els \<noteq> []" by simp
  have s40: "showNat 40 = ascii ''40''" by code_simp
  have s30: "showNat 30 = ascii ''30''" by code_simp
  note f = showHospitals_found [OF getProp_geodata n buildItems_points, of P distanceKm lat lon place]
  have l: "length ?els = 40" by simp
  have k: "min 30 (length (map (\<lambda>a. withDistance distanceKm lat lon
             \<lparr>el = point a 0, lat2 = Fin a, lon2 = Fin 0\<rparr>) (map real [0..<40]))) = 30" by simp
  have "showHospitals P distanceKm lat lon place (geodata ?els) =
          \<lparr>statusP = ascii ''Found '' @ showNat 40 @ ascii '' items; showing nearest ''
             @ showNat 30 @ ascii ''.'',
           toShow = take 30 (jsSort byDistance (map (\<lambda>a. withDistance distanceKm lat lon
             \<lparr>el = point a 0, lat2 = Fin a, lon2 = Fin 0\<rparr>) (map real [0..<40])))\<rparr>"
    using f unfolding l k .
  then show ?thesis
    by (simp add: length_jsSort s40 s30 ascii_def)
qed

text \<open>
  How a search reaches \<open>showHospitals\<close>: both calls of \<open>tryFetchJson\<close> return, and the
  first candidate of the geocoder is not \<open>null\<close>.
\<close>

lemma searchHospitals_shows:
  assumes "trim value = place" and "place \<noteq> []"
    and "encodeURIComponent P (place @ ascii '', Tamil Nadu, India'') = Some q"
    and "tryFetchJson (jsonParse P) net []
           [ascii ''https://nominatim.openstreetmap.org/search?format=json&limit=1&q='' @ q,
            ascii ''https://geocode.maps.co/search?q='' @ q @ ascii ''&limit=1'']
           (Obj [(ascii ''headers'', Obj [(ascii ''Accept'', Str (ascii ''application/json''))])]) 2 =
         (Inr (Arr (first # others), geoUrl), hist)"
    and "getProp first (ascii ''lat'') = Some latV" and "getProp first (ascii ''lon'') = Some lonV"
    and "parseFloat P latV = Some lat" and "parseFloat P lonV = Some lon"
    and "encodeURIComponent P (overpassQuery P lat lon) = Some encoded"
    and "tryFetchJson (jsonParse P) net hist
           [ascii ''https://overpass-api.de/api/interpreter?data='' @ encoded,
            ascii ''https://overpass.kumi.systems/api/interpreter?data='' @ encoded]
           (Obj [(ascii ''method'', Str (ascii ''GET''))]) 3 =
         (Inr (hospitalJson, url), hist')"
  shows "searchHospitals P distanceKm net value =
           (showHospitals P distanceKm lat lon place hospitalJson, hist')"
  using assms by (simp add: searchHospitals_def Let_def)

end
